theory Spec2Isabelle
  imports Complex_Main
begin

section \<open>The ZYX Euler-angle rotation of kindr (EulerAnglesZyx.hpp)\<close>

text \<open>
  The class template \<^verbatim>\<open>EulerAnglesZyx<PrimType_, Usage_>\<close> stores one
  \<^verbatim>\<open>Eigen::Matrix<PrimType_, 3, 1>\<close> named \<^verbatim>\<open>zyx_\<close>. The template parameter
  \<^verbatim>\<open>Usage_\<close> becomes the first argument of every member function of the model, the
  scalar type \<^verbatim>\<open>PrimType_\<close> a type variable. Where the source computes with
  \<^verbatim>\<open>M_PI\<close> the scalars are real numbers, the idealisation of \<^verbatim>\<open>float\<close> and
  \<^verbatim>\<open>double\<close>; the sign handling only needs a negation with \<open>- (- a) = a\<close>.
\<close>

subsection \<open>Data\<close>

datatype RotationUsage = ACTIVE | PASSIVE

text \<open>\<^verbatim>\<open>Eigen::Matrix<PrimType_, 3, 1>\<close>: the coefficients at index 0, 1 and 2.\<close>

datatype 'a Vector3 = Vector3 (c0: 'a) (c1: 'a) (c2: 'a)

text \<open>\<^verbatim>\<open>Base::Zero()\<close>, the unary minus of Eigen and \<^verbatim>\<open>cast<DestPrimType_>()\<close>,
  which applies the scalar conversion to every coefficient.\<close>

definition Zero :: "'a::zero Vector3" where
  "Zero = Vector3 0 0 0"

fun negated :: "'a::uminus Vector3 \<Rightarrow> 'a Vector3" where
  "negated (Vector3 a b c) = Vector3 (- a) (- b) (- c)"

fun cast :: "('a \<Rightarrow> 'b) \<Rightarrow> 'a Vector3 \<Rightarrow> 'b Vector3" where
  "cast f (Vector3 a b c) = Vector3 (f a) (f b) (f c)"

record 'a EulerAnglesZyx =
  zyx :: "'a Vector3"

subsection \<open>Constructors\<close>

definition EulerAnglesZyx_default :: "'a::zero EulerAnglesZyx" where
  "EulerAnglesZyx_default = \<lparr>zyx = Zero\<rparr>"

fun EulerAnglesZyx_ypr :: "RotationUsage \<Rightarrow> 'a::uminus \<Rightarrow> 'a \<Rightarrow> 'a \<Rightarrow> 'a EulerAnglesZyx" where
  "EulerAnglesZyx_ypr ACTIVE yw pt rl = \<lparr>zyx = Vector3 yw pt rl\<rparr>"
| "EulerAnglesZyx_ypr PASSIVE yw pt rl = \<lparr>zyx = Vector3 (- yw) (- pt) (- rl)\<rparr>"

fun EulerAnglesZyx_base :: "RotationUsage \<Rightarrow> 'a::uminus Vector3 \<Rightarrow> 'a EulerAnglesZyx" where
  "EulerAnglesZyx_base ACTIVE other = \<lparr>zyx = other\<rparr>"
| "EulerAnglesZyx_base PASSIVE other = \<lparr>zyx = negated other\<rparr>"

subsection \<open>Access to the payload\<close>

fun toImplementation :: "RotationUsage \<Rightarrow> 'a::uminus EulerAnglesZyx \<Rightarrow> 'a Vector3" where
  "toImplementation ACTIVE e = zyx e"
| "toImplementation PASSIVE e = negated (zyx e)"

definition toStoredImplementation :: "'a EulerAnglesZyx \<Rightarrow> 'a Vector3" where
  "toStoredImplementation e = zyx e"

fun yaw :: "RotationUsage \<Rightarrow> 'a::uminus EulerAnglesZyx \<Rightarrow> 'a" where
  "yaw ACTIVE e = c0 (zyx e)"
| "yaw PASSIVE e = - c0 (zyx e)"

fun pitch :: "RotationUsage \<Rightarrow> 'a::uminus EulerAnglesZyx \<Rightarrow> 'a" where
  "pitch ACTIVE e = c1 (zyx e)"
| "pitch PASSIVE e = - c1 (zyx e)"

fun roll :: "RotationUsage \<Rightarrow> 'a::uminus EulerAnglesZyx \<Rightarrow> 'a" where
  "roll ACTIVE e = c2 (zyx e)"
| "roll PASSIVE e = - c2 (zyx e)"

text \<open>The setters write one coefficient of \<^verbatim>\<open>zyx_\<close> and leave the other two.\<close>

fun setYaw :: "RotationUsage \<Rightarrow> 'a::uminus \<Rightarrow> 'a EulerAnglesZyx \<Rightarrow> 'a EulerAnglesZyx" where
  "setYaw ACTIVE v e = e\<lparr>zyx := Vector3 v (c1 (zyx e)) (c2 (zyx e))\<rparr>"
| "setYaw PASSIVE v e = e\<lparr>zyx := Vector3 (- v) (c1 (zyx e)) (c2 (zyx e))\<rparr>"

fun setPitch :: "RotationUsage \<Rightarrow> 'a::uminus \<Rightarrow> 'a EulerAnglesZyx \<Rightarrow> 'a EulerAnglesZyx" where
  "setPitch ACTIVE v e = e\<lparr>zyx := Vector3 (c0 (zyx e)) v (c2 (zyx e))\<rparr>"
| "setPitch PASSIVE v e = e\<lparr>zyx := Vector3 (c0 (zyx e)) (- v) (c2 (zyx e))\<rparr>"

fun setRoll :: "RotationUsage \<Rightarrow> 'a::uminus \<Rightarrow> 'a EulerAnglesZyx \<Rightarrow> 'a EulerAnglesZyx" where
  "setRoll ACTIVE v e = e\<lparr>zyx := Vector3 (c0 (zyx e)) (c1 (zyx e)) v\<rparr>"
| "setRoll PASSIVE v e = e\<lparr>zyx := Vector3 (c0 (zyx e)) (c1 (zyx e)) (- v)\<rparr>"

text \<open>The axis aliases \<^verbatim>\<open>z()\<close>, \<^verbatim>\<open>y()\<close>, \<^verbatim>\<open>x()\<close> and \<^verbatim>\<open>setZ\<close>, \<^verbatim>\<open>setY\<close>,
  \<^verbatim>\<open>setX\<close> repeat the bodies of the named accessors; the readers carry the suffix
  \<open>_axis\<close> here, so that \<open>x\<close>, \<open>y\<close> and \<open>z\<close> stay free for variables.\<close>

fun z_axis :: "RotationUsage \<Rightarrow> 'a::uminus EulerAnglesZyx \<Rightarrow> 'a" where
  "z_axis ACTIVE e = c0 (zyx e)"
| "z_axis PASSIVE e = - c0 (zyx e)"

fun y_axis :: "RotationUsage \<Rightarrow> 'a::uminus EulerAnglesZyx \<Rightarrow> 'a" where
  "y_axis ACTIVE e = c1 (zyx e)"
| "y_axis PASSIVE e = - c1 (zyx e)"

fun x_axis :: "RotationUsage \<Rightarrow> 'a::uminus EulerAnglesZyx \<Rightarrow> 'a" where
  "x_axis ACTIVE e = c2 (zyx e)"
| "x_axis PASSIVE e = - c2 (zyx e)"

fun setZ :: "RotationUsage \<Rightarrow> 'a::uminus \<Rightarrow> 'a EulerAnglesZyx \<Rightarrow> 'a EulerAnglesZyx" where
  "setZ ACTIVE v e = e\<lparr>zyx := Vector3 v (c1 (zyx e)) (c2 (zyx e))\<rparr>"
| "setZ PASSIVE v e = e\<lparr>zyx := Vector3 (- v) (c1 (zyx e)) (c2 (zyx e))\<rparr>"

fun setY :: "RotationUsage \<Rightarrow> 'a::uminus \<Rightarrow> 'a EulerAnglesZyx \<Rightarrow> 'a EulerAnglesZyx" where
  "setY ACTIVE v e = e\<lparr>zyx := Vector3 (c0 (zyx e)) v (c2 (zyx e))\<rparr>"
| "setY PASSIVE v e = e\<lparr>zyx := Vector3 (c0 (zyx e)) (- v) (c2 (zyx e))\<rparr>"

fun setX :: "RotationUsage \<Rightarrow> 'a::uminus \<Rightarrow> 'a EulerAnglesZyx \<Rightarrow> 'a EulerAnglesZyx" where
  "setX ACTIVE v e = e\<lparr>zyx := Vector3 (c0 (zyx e)) (c1 (zyx e)) v\<rparr>"
| "setX PASSIVE v e = e\<lparr>zyx := Vector3 (c0 (zyx e)) (c1 (zyx e)) (- v)\<rparr>"

text \<open>
  \<^verbatim>\<open>setIdentity()\<close> has no function in this theory. Its body is
  \<^verbatim>\<open>this->Implementation::setZero()\<close>, a call qualified with
  \<^verbatim>\<open>Implementation\<close>, that is \<^verbatim>\<open>Eigen::Matrix<PrimType_, 3, 1>\<close>. The class
  holds that type as the member \<^verbatim>\<open>zyx_\<close> and derives only from
  \<^verbatim>\<open>EulerAnglesZyxBase\<close>, so the call is ill-formed as soon as the member
  function is instantiated: there is no execution in which it writes \<^verbatim>\<open>zyx_\<close>,
  and nothing to translate.
\<close>

subsection \<open>Conversion from another ZYX value\<close>

text \<open>
  \<^verbatim>\<open>ConversionTraits<EulerAnglesZyx<Dest, Usage_>, EulerAnglesZyx<Source, Usage_>>::convert\<close>
  casts the stored payload of the source and hands it to the constructor that takes an
  Eigen vector. The scalar conversion is the parameter \<open>f\<close>; for equal precision it is
  the identity. The adapter constructor keeps the stored payload of the converted value,
  the assignment and the parenthesis operator replace the receiver by it.
\<close>

definition convert :: "RotationUsage \<Rightarrow> ('a \<Rightarrow> 'b::uminus) \<Rightarrow> 'a EulerAnglesZyx \<Rightarrow> 'b EulerAnglesZyx" where
  "convert u f e = EulerAnglesZyx_base u (cast f (toStoredImplementation e))"

definition EulerAnglesZyx_rotation ::
    "RotationUsage \<Rightarrow> ('a \<Rightarrow> 'b::uminus) \<Rightarrow> 'a EulerAnglesZyx \<Rightarrow> 'b EulerAnglesZyx" where
  "EulerAnglesZyx_rotation u f other = \<lparr>zyx = toStoredImplementation (convert u f other)\<rparr>"

definition assign :: "RotationUsage \<Rightarrow> ('a \<Rightarrow> 'b::uminus) \<Rightarrow> 'b EulerAnglesZyx \<Rightarrow> 'a EulerAnglesZyx
    \<Rightarrow> 'b EulerAnglesZyx" where
  "assign u f this other = convert u f other"

subsection \<open>Canonicalization\<close>

text \<open>
  Modelled from the spec: \<^verbatim>\<open>kindr::common::floatingPointModulo\<close> is declared in
  \<^verbatim>\<open>kindr/common/common.hpp\<close>, which is not among the sources. The specification
  (section 4.4, step 1) uses it as the floating-point modulo \<open>mod(angle + \<pi>, 2\<pi>)\<close> that
  wraps into a half-open interval: the remainder of the floored division.
\<close>

definition floatingPointModulo :: "real \<Rightarrow> real \<Rightarrow> real" where
  "floatingPointModulo x y = x - y * of_int \<lfloor>x / y\<rfloor>"

text \<open>
  \<^verbatim>\<open>getUnique()\<close> builds a local value \<^verbatim>\<open>zyx\<close> from the wrapped angles and then
  updates it statement by statement; \<^verbatim>\<open>M_PI\<close> is \<open>pi\<close>. The three statements
  of the remapping are the same in both branches but for the new pitch.
\<close>

definition shiftYaw :: "RotationUsage \<Rightarrow> real EulerAnglesZyx \<Rightarrow> real EulerAnglesZyx" where
  "shiftYaw u e = (if yaw u e \<ge> 0 then setYaw u (yaw u e - pi) e else setYaw u (yaw u e + pi) e)"

definition shiftRoll :: "RotationUsage \<Rightarrow> real EulerAnglesZyx \<Rightarrow> real EulerAnglesZyx" where
  "shiftRoll u e = (if roll u e \<ge> 0 then setRoll u (roll u e - pi) e else setRoll u (roll u e + pi) e)"

definition getUnique :: "RotationUsage \<Rightarrow> real EulerAnglesZyx \<Rightarrow> real EulerAnglesZyx" where
  "getUnique u e =
     (let w = EulerAnglesZyx_ypr u (floatingPointModulo (yaw u e + pi) (2 * pi) - pi)
                                   (floatingPointModulo (pitch u e + pi) (2 * pi) - pi)
                                   (floatingPointModulo (roll u e + pi) (2 * pi) - pi)
      in if pitch u w \<ge> pi / 2 then
           (let w1 = shiftYaw u w;
                w2 = setPitch u (- (pitch u w1 - pi)) w1
            in shiftRoll u w2)
         else if pitch u w < - pi / 2 then
           (let w1 = shiftYaw u w;
                w2 = setPitch u (- (pitch u w1 + pi)) w1
            in shiftRoll u w2)
         else w)"

definition setUnique :: "RotationUsage \<Rightarrow> real EulerAnglesZyx \<Rightarrow> real EulerAnglesZyx" where
  "setUnique u e = getUnique u e"

text \<open>
  Two abbreviations for the proofs: the wrapping expression of \<^verbatim>\<open>getUnique()\<close>, and
  the shift by \<open>pi\<close> towards zero that both remapping branches apply to yaw and roll.
\<close>

definition wrapped :: "real \<Rightarrow> real" where
  "wrapped a = floatingPointModulo (a + pi) (2 * pi) - pi"

definition flipped :: "real \<Rightarrow> real" where
  "flipped a = (if a \<ge> 0 then a - pi else a + pi)"

section \<open>The sign convention of the usage tag\<close>

text \<open>
  Claim C7. For every value, \<^verbatim>\<open>toImplementation()\<close> returns the stored payload
  unchanged when the usage tag is Active, and the element-wise negation of the stored
  payload when the usage tag is Passive.
\<close>

theorem toImplementation_by_usage:
  "toImplementation ACTIVE e = toStoredImplementation e \<and>
   toImplementation PASSIVE e = negated (toStoredImplementation e)"
  by (simp add: toStoredImplementation_def)

text \<open>
  Claim C8. For both usage tags and every triple, the value constructed from
  (yaw, pitch, roll) returns yaw from \<^verbatim>\<open>yaw()\<close> and \<^verbatim>\<open>z()\<close>, pitch from
  \<^verbatim>\<open>pitch()\<close> and \<^verbatim>\<open>y()\<close>, and roll from \<^verbatim>\<open>roll()\<close> and \<^verbatim>\<open>x()\<close>: the
  negation of the Passive constructor is undone by the Passive readers.
\<close>

theorem accessors_of_constructed:
  fixes a b c :: "'a::group_add"
  shows "yaw u (EulerAnglesZyx_ypr u a b c) = a \<and> z_axis u (EulerAnglesZyx_ypr u a b c) = a \<and>
         pitch u (EulerAnglesZyx_ypr u a b c) = b \<and> y_axis u (EulerAnglesZyx_ypr u a b c) = b \<and>
         roll u (EulerAnglesZyx_ypr u a b c) = c \<and> x_axis u (EulerAnglesZyx_ypr u a b c) = c"
  by (cases u) simp_all

text \<open>
  Claim C1, as stated: the value constructed Passive from (yaw, pitch, roll) has as
  \<^verbatim>\<open>toImplementation()\<close> the negation of \<^verbatim>\<open>toImplementation()\<close> of the value
  constructed Active from the same triple. It fails at (1, 0, 0): both give (1, 0, 0).
\<close>

theorem passive_toImplementation_not_negated:
  "toImplementation PASSIVE (EulerAnglesZyx_ypr PASSIVE (1::real) 0 0)
     \<noteq> negated (toImplementation ACTIVE (EulerAnglesZyx_ypr ACTIVE (1::real) 0 0))"
  by simp

text \<open>
  Claim C1, amended: the Passive constructor negates and \<^verbatim>\<open>toImplementation()\<close>
  negates back, so both values return the triple itself from
  \<^verbatim>\<open>toImplementation()\<close>; it is the stored payload of the Passive value that is the
  negation of the stored payload of the Active one.
\<close>

theorem usage_sign_law:
  fixes a b c :: "'a::group_add"
  shows "toImplementation PASSIVE (EulerAnglesZyx_ypr PASSIVE a b c) = Vector3 a b c \<and>
         toImplementation ACTIVE (EulerAnglesZyx_ypr ACTIVE a b c) = Vector3 a b c \<and>
         toStoredImplementation (EulerAnglesZyx_ypr PASSIVE a b c)
           = negated (toStoredImplementation (EulerAnglesZyx_ypr ACTIVE a b c))"
  by (simp add: toStoredImplementation_def)

text \<open>
  Claim C10. Each single-angle mutator changes only its own component: for both usage
  tags and any prior state, \<^verbatim>\<open>setYaw\<close> and \<^verbatim>\<open>setZ\<close> leave \<^verbatim>\<open>pitch()\<close> and
  \<^verbatim>\<open>roll()\<close>, \<^verbatim>\<open>setPitch\<close> and \<^verbatim>\<open>setY\<close> leave \<^verbatim>\<open>yaw()\<close> and \<^verbatim>\<open>roll()\<close>,
  \<^verbatim>\<open>setRoll\<close> and \<^verbatim>\<open>setX\<close> leave \<^verbatim>\<open>yaw()\<close> and \<^verbatim>\<open>pitch()\<close> as they were.
\<close>

theorem setters_frame:
  fixes e :: "'a::uminus EulerAnglesZyx"
  shows "pitch u (setYaw u v e) = pitch u e \<and> roll u (setYaw u v e) = roll u e \<and>
         pitch u (setZ u v e) = pitch u e \<and> roll u (setZ u v e) = roll u e \<and>
         yaw u (setPitch u v e) = yaw u e \<and> roll u (setPitch u v e) = roll u e \<and>
         yaw u (setY u v e) = yaw u e \<and> roll u (setY u v e) = roll u e \<and>
         yaw u (setRoll u v e) = yaw u e \<and> pitch u (setRoll u v e) = pitch u e \<and>
         yaw u (setX u v e) = yaw u e \<and> pitch u (setX u v e) = pitch u e"
  by (cases u) simp_all

section \<open>Conversion between ZYX values of one usage tag\<close>

lemma negated_negated:
  fixes v :: "'a::group_add Vector3"
  shows "negated (negated v) = v"
  by (cases v) simp

lemma cast_id: "cast (\<lambda>s. s) v = v"
  by (cases v) simp

text \<open>For Active values the conversion at equal precision keeps the stored payload.\<close>

lemma convert_active_stored:
  "toStoredImplementation (convert ACTIVE (\<lambda>s. s) e) = toStoredImplementation e"
  by (simp add: convert_def toStoredImplementation_def cast_id)

text \<open>For Passive values the vector constructor negates the payload it is handed,
  which is the stored one: the converted value is the inverse rotation.\<close>

lemma convert_passive_stored:
  "toStoredImplementation (convert PASSIVE (\<lambda>s. s) e) = negated (toStoredImplementation e)"
  by (simp add: convert_def toStoredImplementation_def cast_id)

lemma convert_passive_yaw:
  fixes e :: "'a::group_add EulerAnglesZyx"
  shows "yaw PASSIVE (convert PASSIVE (\<lambda>s. s) e) = - yaw PASSIVE e"
  by (cases "zyx e") (simp add: convert_def toStoredImplementation_def)

text \<open>
  Claim C4 at a Passive value: the value constructed from (1, 2, 3) stores
  (-1, -2, -3); converted to its own type (by \<^verbatim>\<open>convert\<close>, and so by the adapter
  constructor and the assignment) it stores (1, 2, 3), and its \<^verbatim>\<open>yaw()\<close> is -1
  where the source's is 1. The claim says that the stored payload is kept.
\<close>

theorem convert_passive_flips_sign:
  "toStoredImplementation (EulerAnglesZyx_ypr PASSIVE (1::real) 2 3) = Vector3 (-1) (-2) (-3) \<and>
   toStoredImplementation (convert PASSIVE (\<lambda>s. s) (EulerAnglesZyx_ypr PASSIVE (1::real) 2 3))
     = Vector3 1 2 3 \<and>
   toStoredImplementation (EulerAnglesZyx_rotation PASSIVE (\<lambda>s. s) (EulerAnglesZyx_ypr PASSIVE (1::real) 2 3))
     = Vector3 1 2 3 \<and>
   toStoredImplementation
      (assign PASSIVE (\<lambda>s. s) EulerAnglesZyx_default (EulerAnglesZyx_ypr PASSIVE (1::real) 2 3))
     = Vector3 1 2 3 \<and>
   yaw PASSIVE (EulerAnglesZyx_ypr PASSIVE (1::real) 2 3) = 1 \<and>
   yaw PASSIVE (convert PASSIVE (\<lambda>s. s) (EulerAnglesZyx_ypr PASSIVE (1::real) 2 3)) = - 1"
  by (simp add: convert_def EulerAnglesZyx_rotation_def assign_def toStoredImplementation_def)

section \<open>Canonicalization\<close>

subsection \<open>The modulo and the wrapping\<close>

lemma floatingPointModulo_id:
  assumes "0 \<le> x" and "x < y"
  shows "floatingPointModulo x y = x"
proof -
  from assms have "0 < y" by simp
  with assms have "\<lfloor>x / y\<rfloor> = 0" by (simp add: floor_eq_iff)
  then show ?thesis by (simp add: floatingPointModulo_def)
qed

lemma floatingPointModulo_range:
  assumes y: "0 < y"
  shows "0 \<le> floatingPointModulo x y \<and> floatingPointModulo x y < y"
proof -
  have "of_int \<lfloor>x / y\<rfloor> * y \<le> x" using y by (rule floor_divide_lower)
  moreover have "x < (of_int \<lfloor>x / y\<rfloor> + 1) * y" using y by (rule floor_divide_upper)
  ultimately show ?thesis by (simp add: floatingPointModulo_def algebra_simps)
qed

lemma wrapped_range: "- pi \<le> wrapped a \<and> wrapped a < pi"
  using floatingPointModulo_range[of "2 * pi" "a + pi"] by (simp add: wrapped_def)

lemma wrapped_id: "- pi \<le> a \<Longrightarrow> a < pi \<Longrightarrow> wrapped a = a"
  using floatingPointModulo_id[of "a + pi" "2 * pi"] by (simp add: wrapped_def)

lemma wrapped_0: "wrapped 0 = 0"
  by (rule wrapped_id) simp_all

lemma wrapped_half_pi: "wrapped (pi / 2) = pi / 2"
  by (rule wrapped_id) simp_all

lemma wrapped_minus_pi: "wrapped (- pi) = - pi"
  by (rule wrapped_id) simp_all

lemma flipped_range: "- pi \<le> a \<Longrightarrow> a < pi \<Longrightarrow> - pi \<le> flipped a \<and> flipped a < pi"
  by (simp add: flipped_def)

subsection \<open>Every value is the value constructed from its own angles\<close>

lemma ypr_readers:
  fixes a b c :: "'a::group_add"
  shows "yaw u (EulerAnglesZyx_ypr u a b c) = a"
    and "pitch u (EulerAnglesZyx_ypr u a b c) = b"
    and "roll u (EulerAnglesZyx_ypr u a b c) = c"
  by (cases u; simp)+

lemma ypr_of_readers:
  fixes e :: "'a::group_add EulerAnglesZyx"
  shows "EulerAnglesZyx_ypr u (yaw u e) (pitch u e) (roll u e) = e"
  by (cases u; cases "zyx e"; simp)+

lemma setYaw_ypr:
  fixes a b c :: "'a::group_add"
  shows "setYaw u v (EulerAnglesZyx_ypr u a b c) = EulerAnglesZyx_ypr u v b c"
  by (cases u) simp_all

lemma setPitch_ypr:
  fixes a b c :: "'a::group_add"
  shows "setPitch u v (EulerAnglesZyx_ypr u a b c) = EulerAnglesZyx_ypr u a v c"
  by (cases u) simp_all

lemma setRoll_ypr:
  fixes a b c :: "'a::group_add"
  shows "setRoll u v (EulerAnglesZyx_ypr u a b c) = EulerAnglesZyx_ypr u a b v"
  by (cases u) simp_all

lemma shiftYaw_ypr:
  "shiftYaw u (EulerAnglesZyx_ypr u a b c) = EulerAnglesZyx_ypr u (flipped a) b c"
  by (simp add: shiftYaw_def flipped_def ypr_readers setYaw_ypr)

lemma shiftRoll_ypr:
  "shiftRoll u (EulerAnglesZyx_ypr u a b c) = EulerAnglesZyx_ypr u a b (flipped c)"
  by (simp add: shiftRoll_def flipped_def ypr_readers setRoll_ypr)

subsection \<open>What \<^verbatim>\<open>getUnique()\<close> computes, in the angles the caller sees\<close>

lemma getUnique_ypr:
  "getUnique u (EulerAnglesZyx_ypr u a b c) =
     (if wrapped b \<ge> pi / 2 then
        EulerAnglesZyx_ypr u (flipped (wrapped a)) (- (wrapped b - pi)) (flipped (wrapped c))
      else if wrapped b < - pi / 2 then
        EulerAnglesZyx_ypr u (flipped (wrapped a)) (- (wrapped b + pi)) (flipped (wrapped c))
      else EulerAnglesZyx_ypr u (wrapped a) (wrapped b) (wrapped c))"
  unfolding getUnique_def Let_def ypr_readers wrapped_def[symmetric]
  by (simp add: shiftYaw_ypr shiftRoll_ypr setPitch_ypr ypr_readers)

lemma getUnique_at_half_pi:
  "getUnique u (EulerAnglesZyx_ypr u 0 (pi / 2) 0) = EulerAnglesZyx_ypr u (- pi) (pi / 2) (- pi)"
  by (simp add: getUnique_ypr wrapped_0 wrapped_half_pi flipped_def)

lemma getUnique_at_half_pi_again:
  "getUnique u (EulerAnglesZyx_ypr u (- pi) (pi / 2) (- pi)) = EulerAnglesZyx_ypr u 0 (pi / 2) 0"
proof -
  have "\<not> pi \<le> 0" using pi_gt_zero by linarith
  then show ?thesis
    by (simp add: getUnique_ypr wrapped_minus_pi wrapped_half_pi flipped_def)
qed

text \<open>
  The ranges that do hold for every value over the real numbers: yaw and roll in
  \<open>[-pi, pi)\<close>, pitch in the closed interval \<open>[-pi/2, pi/2]\<close>. The lemmas of this
  subsection are facts of exact arithmetic; in \<^verbatim>\<open>double\<close> an angle that rounds
  onto the edge behaves as the edge does.
\<close>

lemma getUnique_range_closed:
  "- pi \<le> yaw u (getUnique u e) \<and> yaw u (getUnique u e) < pi \<and>
   - pi / 2 \<le> pitch u (getUnique u e) \<and> pitch u (getUnique u e) \<le> pi / 2 \<and>
   - pi \<le> roll u (getUnique u e) \<and> roll u (getUnique u e) < pi"
proof -
  have e: "e = EulerAnglesZyx_ypr u (yaw u e) (pitch u e) (roll u e)"
    by (simp add: ypr_of_readers)
  note ra = wrapped_range[of "yaw u e"] and rb = wrapped_range[of "pitch u e"]
    and rc = wrapped_range[of "roll u e"]
  note fa = flipped_range[of "wrapped (yaw u e)"] and fc = flipped_range[of "wrapped (roll u e)"]
  show ?thesis
    apply (subst (1 2 3 4 5 6) e)
    unfolding getUnique_ypr
    using ra rb rc fa fc by (simp add: ypr_readers)
qed

text \<open>The pitch is below \<open>pi/2\<close> unless the wrapped pitch is exactly \<open>pi/2\<close>.\<close>

lemma getUnique_pitch_strict:
  assumes "wrapped (pitch u e) \<noteq> pi / 2"
  shows "pitch u (getUnique u e) < pi / 2"
proof -
  have e: "e = EulerAnglesZyx_ypr u (yaw u e) (pitch u e) (roll u e)"
    by (simp add: ypr_of_readers)
  note rb = wrapped_range[of "pitch u e"]
  show ?thesis
    apply (subst e)
    unfolding getUnique_ypr
    using rb assms by (simp add: ypr_readers)
qed

lemma getUnique_fixed:
  assumes "- pi \<le> a" "a < pi" "- pi / 2 \<le> b" "b < pi / 2" "- pi \<le> c" "c < pi"
  shows "getUnique u (EulerAnglesZyx_ypr u a b c) = EulerAnglesZyx_ypr u a b c"
proof -
  from assms have "wrapped a = a" "wrapped b = b" "wrapped c = c"
    by (simp_all add: wrapped_id)
  with assms show ?thesis by (simp add: getUnique_ypr)
qed

text \<open>Away from that edge a second application changes nothing.\<close>

lemma getUnique_idempotent_off_edge:
  assumes "wrapped (pitch u e) \<noteq> pi / 2"
  shows "getUnique u (getUnique u e) = getUnique u e"
proof -
  let ?g = "getUnique u e"
  have g: "?g = EulerAnglesZyx_ypr u (yaw u ?g) (pitch u ?g) (roll u ?g)"
    by (simp add: ypr_of_readers)
  have "getUnique u (EulerAnglesZyx_ypr u (yaw u ?g) (pitch u ?g) (roll u ?g))
      = EulerAnglesZyx_ypr u (yaw u ?g) (pitch u ?g) (roll u ?g)"
    using getUnique_range_closed[of u e] getUnique_pitch_strict[OF assms]
    by (intro getUnique_fixed) simp_all
  then show ?thesis using g by simp
qed

text \<open>
  Claim C2 at pitch \<open>pi/2\<close>. The source documents the result of \<^verbatim>\<open>getUnique()\<close> as
  lying in \<open>[-pi,pi), [-pi/2,pi/2), [-pi,pi)\<close>. For the value constructed from
  \<open>(0, pi/2, 0)\<close>, with either usage tag, the wrapped pitch is \<open>pi/2\<close>, the first
  branch is taken and the new pitch is \<open>-(pi/2 - pi) = pi/2\<close>: it is not below
  \<open>pi/2\<close>.
\<close>

theorem getUnique_pitch_half_pi_out_of_range:
  "pitch ACTIVE (getUnique ACTIVE (EulerAnglesZyx_ypr ACTIVE 0 (pi / 2) 0)) = pi / 2 \<and>
   pitch PASSIVE (getUnique PASSIVE (EulerAnglesZyx_ypr PASSIVE 0 (pi / 2) 0)) = pi / 2 \<and>
   \<not> pitch ACTIVE (getUnique ACTIVE (EulerAnglesZyx_ypr ACTIVE 0 (pi / 2) 0)) < pi / 2 \<and>
   \<not> pitch PASSIVE (getUnique PASSIVE (EulerAnglesZyx_ypr PASSIVE 0 (pi / 2) 0)) < pi / 2"
  unfolding getUnique_at_half_pi by simp

text \<open>
  Claim C3 at pitch \<open>pi/2\<close>. For the value constructed Active from \<open>(0, pi/2, 0)\<close>
  the first application of \<^verbatim>\<open>getUnique()\<close> gives \<open>(-pi, pi/2, -pi)\<close>; the second
  takes the same branch again and gives \<open>(0, pi/2, 0)\<close>, a different triple.
\<close>

theorem getUnique_not_idempotent_at_half_pi:
  "getUnique ACTIVE (EulerAnglesZyx_ypr ACTIVE 0 (pi / 2) 0)
     = EulerAnglesZyx_ypr ACTIVE (- pi) (pi / 2) (- pi) \<and>
   getUnique ACTIVE (getUnique ACTIVE (EulerAnglesZyx_ypr ACTIVE 0 (pi / 2) 0))
     = EulerAnglesZyx_ypr ACTIVE 0 (pi / 2) 0 \<and>
   getUnique ACTIVE (getUnique ACTIVE (EulerAnglesZyx_ypr ACTIVE 0 (pi / 2) 0))
     \<noteq> getUnique ACTIVE (EulerAnglesZyx_ypr ACTIVE 0 (pi / 2) 0)"
  unfolding getUnique_at_half_pi getUnique_at_half_pi_again by simp

end
